theory Spec2Isabelle
  imports Complex_Main "HOL-Library.AList" "HOL-Library.Sublist"
begin

section \<open>JavaScript values\<close>

text \<open>
  The filter module (\<^verbatim>\<open>src/js/filter.js\<close>) and the recommendation module
  (\<^verbatim>\<open>src/js/recommendation.js\<close>) work on dynamically typed values. A JavaScript
  number is modelled as an exact rational, \<open>NaN\<close> or one of the two infinities: there is
  no rounding to the nearest double and no negative zero. Strings are byte strings.
\<close>

datatype jsnum = NaN | NInf | Fin rat | PInf

datatype prim = PUndefined | PNull | PBool bool | PNum jsnum | PStr string

text \<open>
  A product attribute is a primitive value or an array of primitive values. \<open>Obj\<close> is any
  other object or function; the only ones the lookups below meet are the members that
  every plain object inherits from \<^verbatim>\<open>Object.prototype\<close>.
\<close>

datatype jsval = Prim prim | Arr "prim list" | Obj

text \<open>
  The names of the members of \<^verbatim>\<open>Object.prototype\<close>. Indexing a plain object with one
  of them gives the inherited function (for \<^verbatim>\<open>__proto__\<close> the prototype object) unless
  the object has a property of its own under that name.
\<close>

definition object_prototype_members :: "string list" where
  "object_prototype_members =
     [''constructor'', ''__defineGetter__'', ''__defineSetter__'', ''hasOwnProperty'',
      ''__lookupGetter__'', ''__lookupSetter__'', ''isPrototypeOf'', ''propertyIsEnumerable'',
      ''toString'', ''valueOf'', ''__proto__'', ''toLocaleString'']"

text \<open>\<^verbatim>\<open>obj[key]\<close> on a plain object whose own properties are \<open>own\<close>.\<close>

definition own_or_inherited :: "(string \<rightharpoonup> jsval) \<Rightarrow> string \<Rightarrow> jsval" where
  "own_or_inherited own key =
     (case own key of
        Some v \<Rightarrow> v
      | None \<Rightarrow> if key \<in> set object_prototype_members then Obj else Prim PUndefined)"

text \<open>
  The two conversions between strings and numbers are built into the language and are not
  part of the repository: \<^verbatim>\<open>Number(s)\<close> and the number-to-string conversion of
  template literals and of \<^verbatim>\<open>Array.prototype.join\<close>. They are parameters of the model.
\<close>

record builtins =
  Number :: "string \<Rightarrow> jsnum"
  numToString :: "jsnum \<Rightarrow> string"

subsection \<open>Arithmetic and comparison of numbers\<close>

fun jadd :: "jsnum \<Rightarrow> jsnum \<Rightarrow> jsnum" where
  "jadd (Fin a) (Fin b) = Fin (a + b)"
| "jadd NaN _ = NaN"
| "jadd _ NaN = NaN"
| "jadd PInf NInf = NaN"
| "jadd NInf PInf = NaN"
| "jadd PInf _ = PInf"
| "jadd _ PInf = PInf"
| "jadd NInf _ = NInf"
| "jadd _ NInf = NInf"

definition inf_of_sign :: "bool \<Rightarrow> jsnum" where
  "inf_of_sign neg = (if neg then NInf else PInf)"

fun jmul :: "jsnum \<Rightarrow> jsnum \<Rightarrow> jsnum" where
  "jmul (Fin a) (Fin b) = Fin (a * b)"
| "jmul NaN _ = NaN"
| "jmul _ NaN = NaN"
| "jmul (Fin a) PInf = (if a = 0 then NaN else inf_of_sign (a < 0))"
| "jmul (Fin a) NInf = (if a = 0 then NaN else inf_of_sign (0 < a))"
| "jmul PInf (Fin b) = (if b = 0 then NaN else inf_of_sign (b < 0))"
| "jmul NInf (Fin b) = (if b = 0 then NaN else inf_of_sign (0 < b))"
| "jmul PInf PInf = PInf"
| "jmul NInf NInf = PInf"
| "jmul PInf NInf = NInf"
| "jmul NInf PInf = NInf"

fun jdiv :: "jsnum \<Rightarrow> jsnum \<Rightarrow> jsnum" where
  "jdiv (Fin a) (Fin b) =
     (if b = 0 then (if a = 0 then NaN else inf_of_sign (a < 0)) else Fin (a / b))"
| "jdiv NaN _ = NaN"
| "jdiv _ NaN = NaN"
| "jdiv (Fin a) PInf = Fin 0"
| "jdiv (Fin a) NInf = Fin 0"
| "jdiv PInf (Fin b) = inf_of_sign (b < 0)"
| "jdiv NInf (Fin b) = inf_of_sign (0 \<le> b)"
| "jdiv PInf PInf = NaN"
| "jdiv NInf NInf = NaN"
| "jdiv PInf NInf = NaN"
| "jdiv NInf PInf = NaN"

text \<open>\<^verbatim>\<open>Math.round\<close>: the nearest integer, a tie going up.\<close>

fun js_round :: "jsnum \<Rightarrow> jsnum" where
  "js_round (Fin x) = Fin (of_int \<lfloor>x + 1 / 2\<rfloor>)"
| "js_round n = n"

fun js_lt :: "jsnum \<Rightarrow> jsnum \<Rightarrow> bool" where
  "js_lt (Fin x) (Fin y) = (x < y)"
| "js_lt NInf (Fin y) = True"
| "js_lt NInf PInf = True"
| "js_lt (Fin x) PInf = True"
| "js_lt _ _ = False"

fun js_le :: "jsnum \<Rightarrow> jsnum \<Rightarrow> bool" where
  "js_le (Fin x) (Fin y) = (x \<le> y)"
| "js_le NaN _ = False"
| "js_le _ NaN = False"
| "js_le NInf _ = True"
| "js_le _ PInf = True"
| "js_le _ _ = False"

subsection \<open>Equality, conversion to strings and to numbers\<close>

text \<open>
  \<^verbatim>\<open>===\<close> differs from structural equality on \<open>NaN\<close> only; \<^verbatim>\<open>Array.prototype.includes\<close>
  compares with SameValueZero, under which \<open>NaN\<close> equals itself.
\<close>

definition strict_eq :: "prim \<Rightarrow> prim \<Rightarrow> bool" where
  "strict_eq a b = (a = b \<and> a \<noteq> PNum NaN)"

definition includes_val :: "prim list \<Rightarrow> prim \<Rightarrow> bool" where
  "includes_val xs v = (v \<in> set xs)"

fun prim_to_string :: "builtins \<Rightarrow> prim \<Rightarrow> string" where
  "prim_to_string env PUndefined = ''undefined''"
| "prim_to_string env PNull = ''null''"
| "prim_to_string env (PBool b) = (if b then ''true'' else ''false'')"
| "prim_to_string env (PNum n) = numToString env n"
| "prim_to_string env (PStr s) = s"

text \<open>\<^verbatim>\<open>join\<close> writes \<^verbatim>\<open>undefined\<close> and \<^verbatim>\<open>null\<close> elements as the empty string.\<close>

fun join_elem :: "builtins \<Rightarrow> prim \<Rightarrow> string" where
  "join_elem env PUndefined = []"
| "join_elem env PNull = []"
| "join_elem env v = prim_to_string env v"

fun join_strings :: "char \<Rightarrow> string list \<Rightarrow> string" where
  "join_strings c [] = []"
| "join_strings c [x] = x"
| "join_strings c (x # y # ys) = x @ c # join_strings c (y # ys)"

definition join :: "builtins \<Rightarrow> prim list \<Rightarrow> string" where
  "join env xs = join_strings CHR '','' (map (join_elem env) xs)"

fun prim_to_number :: "builtins \<Rightarrow> prim \<Rightarrow> jsnum" where
  "prim_to_number env PUndefined = NaN"
| "prim_to_number env PNull = Fin 0"
| "prim_to_number env (PBool b) = (if b then Fin 1 else Fin 0)"
| "prim_to_number env (PNum n) = n"
| "prim_to_number env (PStr s) = Number env s"

text \<open>
  An array operand of a comparison is first converted to its joined string; an inherited
  function or object converts to a string that is not a number.
\<close>

fun to_number :: "builtins \<Rightarrow> jsval \<Rightarrow> jsnum" where
  "to_number env (Prim v) = prim_to_number env v"
| "to_number env (Arr xs) = Number env (join env xs)"
| "to_number env Obj = NaN"

section \<open>Products, taxonomy and selections\<close>

text \<open>
  \<^verbatim>\<open>product.name\<close> is absent, a string, or an object from locale to string;
  \<^verbatim>\<open>I18n.getName\<close> (\<^verbatim>\<open>src/js/i18n.js\<close>) resolves it under the current language.
\<close>

datatype jsname = NameMissing | NameStr string | NameObj "string \<rightharpoonup> string"

definition getName :: "string \<Rightarrow> jsname \<Rightarrow> string" where
  "getName currentLang obj =
     (case obj of
        NameMissing \<Rightarrow> []
      | NameStr s \<Rightarrow> s
      | NameObj m \<Rightarrow>
          (case m currentLang of
             Some (a # as) \<Rightarrow> a # as
           | _ \<Rightarrow> (case m ''ko'' of
                     Some (b # bs) \<Rightarrow> b # bs
                   | _ \<Rightarrow> (case m ''en'' of Some s \<Rightarrow> s | None \<Rightarrow> []))))"

text \<open>
  A product: the fields the text search reads, typed as the optional strings they are in the
  data; \<open>props\<close>, every other top-level property of its own (price, release year,
  attributes stored at the top level); and the \<open>filterData\<close> sub-map, which may be absent.
  Category ids are taken to differ from \<^verbatim>\<open>name\<close> and \<^verbatim>\<open>filterData\<close>.
\<close>

record product =
  name :: jsname
  prod_id :: "string option"
  modelNumber :: "string option"
  grade :: "string option"
  series :: "string option"
  props :: "string \<rightharpoonup> jsval"
  filterData :: "(string \<rightharpoonup> jsval) option"

definition opt_str :: "string option \<Rightarrow> jsval" where
  "opt_str s = (case s of None \<Rightarrow> Prim PUndefined | Some t \<Rightarrow> Prim (PStr t))"

text \<open>\<^verbatim>\<open>product[categoryId]\<close>\<close>

definition get_field :: "product \<Rightarrow> string \<Rightarrow> jsval" where
  "get_field p k =
     (if k = ''id'' then opt_str (prod_id p)
      else if k = ''modelNumber'' then opt_str (modelNumber p)
      else if k = ''grade'' then opt_str (grade p)
      else if k = ''series'' then opt_str (series p)
      else own_or_inherited (props p) k)"

text \<open>\<^verbatim>\<open>product[categoryId] ?? product.filterData?.[categoryId]\<close>\<close>

definition productValue_of :: "product \<Rightarrow> string \<Rightarrow> jsval" where
  "productValue_of p categoryId =
     (let v = get_field p categoryId
      in if v = Prim PUndefined \<or> v = Prim PNull
         then (case filterData p of
                 None \<Rightarrow> Prim PUndefined
               | Some fd \<Rightarrow> own_or_inherited fd categoryId)
         else v)"

text \<open>
  A selection is an array of values or a range object \<^verbatim>\<open>{ min, max }\<close>; a bound that is
  \<^verbatim>\<open>undefined\<close> is \<open>None\<close>.
\<close>

datatype selection = Sel_Arr "prim list" | Sel_Range "jsnum option" "jsnum option"

definition bound_to_number :: "jsnum option \<Rightarrow> jsnum" where
  "bound_to_number b = (case b of None \<Rightarrow> NaN | Some n \<Rightarrow> n)"

section \<open>The score function (\<^verbatim>\<open>recommendation.js\<close>)\<close>

definition categoryWeights :: "(string \<times> rat) list" where
  "categoryWeights =
     [(''difficulty'', 3), (''mobility'', 5 / 2), (''grade'', 2), (''recommendedUser'', 5 / 2),
      (''weaponCount'', 3 / 2), (''frameType'', 3 / 2), (''transformation'', 3 / 2),
      (''colorSeparation'', 1), (''sealDependency'', 1), (''clearParts'', 1 / 2),
      (''coatingParts'', 1 / 2)]"

text \<open>
  The value of \<^verbatim>\<open>categoryWeights[categoryId] || 1\<close>. The table is a plain object: an
  entry of its own gives its number, and 1 when the number is zero; the name of an
  inherited member gives that member, a function or an object, which is truthy; any other
  id gives 1.
\<close>

datatype weight = Weight rat | Inherited

definition weight_of :: "string \<Rightarrow> weight" where
  "weight_of categoryId =
     (case map_of categoryWeights categoryId of
        Some w \<Rightarrow> if w = 0 then Weight 1 else Weight w
      | None \<Rightarrow> if categoryId \<in> set object_prototype_members then Inherited else Weight 1)"

text \<open>
  The value of \<^verbatim>\<open>totalWeight\<close> or \<^verbatim>\<open>matchedWeight\<close>: a number, or, once an inherited
  member has been added to it, a string. Such a string holds the text of the member and
  does not read as a number. \<^verbatim>\<open>+=\<close> adds two numbers and concatenates otherwise;
  \<^verbatim>\<open>*\<close> and \<^verbatim>\<open>/\<close> convert their operands to numbers.
\<close>

datatype accum = ANum jsnum | AStr

definition add_number :: "accum \<Rightarrow> jsnum \<Rightarrow> accum" where
  "add_number acc n = (case acc of ANum x \<Rightarrow> ANum (jadd x n) | AStr \<Rightarrow> AStr)"

definition add_weight :: "accum \<Rightarrow> weight \<Rightarrow> accum" where
  "add_weight acc weight =
     (case weight of Weight w \<Rightarrow> add_number acc (Fin w) | Inherited \<Rightarrow> AStr)"

definition weight_times :: "weight \<Rightarrow> jsnum \<Rightarrow> jsnum" where
  "weight_times weight r = (case weight of Weight w \<Rightarrow> jmul (Fin w) r | Inherited \<Rightarrow> NaN)"

definition accum_to_number :: "accum \<Rightarrow> jsnum" where
  "accum_to_number acc = (case acc of ANum x \<Rightarrow> x | AStr \<Rightarrow> NaN)"

text \<open>
  The match check of the loop body, after \<^verbatim>\<open>if (productValue === undefined) continue\<close>:
  the new value of \<^verbatim>\<open>matchedWeight\<close>. A range object whose \<^verbatim>\<open>min\<close> is
  \<^verbatim>\<open>undefined\<close> falls to the last branch of the source, which compares the product value
  with the object itself and never holds.
\<close>

definition js_ge :: "jsnum \<Rightarrow> jsnum \<Rightarrow> bool" where
  "js_ge a b = js_le b a"

definition js_gt :: "jsnum \<Rightarrow> jsnum \<Rightarrow> bool" where
  "js_gt a b = js_lt b a"

definition add_match :: "builtins \<Rightarrow> weight \<Rightarrow> jsval \<Rightarrow> selection \<Rightarrow> accum \<Rightarrow> accum" where
  "add_match env weight productValue filterValues matchedWeight =
     (case filterValues of
        Sel_Arr fv \<Rightarrow>
          (case productValue of
             Arr pv \<Rightarrow>
               (let overlap = filter (\<lambda>v. includes_val fv v) pv
                in add_number matchedWeight
                     (weight_times weight
                        (jdiv (Fin (of_nat (length overlap))) (Fin (of_nat (length fv))))))
           | Prim v \<Rightarrow>
               if includes_val fv v then add_weight matchedWeight weight else matchedWeight
           | Obj \<Rightarrow> matchedWeight)
      | Sel_Range mn mx \<Rightarrow>
          (if mn \<noteq> None
           then (if js_ge (to_number env productValue) (bound_to_number mn)
                    \<and> js_le (to_number env productValue) (bound_to_number mx)
                 then add_weight matchedWeight weight else matchedWeight)
           else matchedWeight))"

text \<open>
  One iteration of the loop over \<^verbatim>\<open>Object.entries(filters)\<close>, on the pair
  (\<^verbatim>\<open>totalWeight\<close>, \<^verbatim>\<open>matchedWeight\<close>).
\<close>

definition score_step :: "builtins \<Rightarrow> product \<Rightarrow> string \<times> selection \<Rightarrow> accum \<times> accum \<Rightarrow> accum \<times> accum" where
  "score_step env p entry acc =
     (case entry of (categoryId, filterValues) \<Rightarrow>
      case acc of (totalWeight, matchedWeight) \<Rightarrow>
        (let weight = weight_of categoryId;
             totalWeight' = add_weight totalWeight weight;
             productValue = productValue_of p categoryId
         in if productValue = Prim PUndefined then (totalWeight', matchedWeight)
            else (totalWeight', add_match env weight productValue filterValues matchedWeight)))"

fun score_loop :: "builtins \<Rightarrow> product \<Rightarrow> (string \<times> selection) list \<Rightarrow> accum \<times> accum \<Rightarrow> accum \<times> accum" where
  "score_loop env p [] acc = acc"
| "score_loop env p (entry # rest) acc = score_loop env p rest (score_step env p entry acc)"

text \<open>
  The end of the function, after the loop: \<^verbatim>\<open>if (totalWeight === 0) return 0\<close> and
  the rounded percentage.
\<close>

definition final_score :: "accum \<times> accum \<Rightarrow> jsnum" where
  "final_score acc =
     (case acc of (totalWeight, matchedWeight) \<Rightarrow>
        if totalWeight = ANum (Fin 0) then Fin 0
        else js_round
               (jmul (jdiv (accum_to_number matchedWeight) (accum_to_number totalWeight))
                  (Fin 100)))"

text \<open>
  \<open>filters\<close> is the list of entries of the filter object, in iteration order; the
  empty list also stands for an absent object.
\<close>

definition calculateMatchScore :: "builtins \<Rightarrow> product \<Rightarrow> (string \<times> selection) list \<Rightarrow> jsnum" where
  "calculateMatchScore env p filters =
     (if filters = [] then Fin 0
      else final_score (score_loop env p filters (ANum (Fin 0), ANum (Fin 0))))"

section \<open>The filter module (\<^verbatim>\<open>filter.js\<close>)\<close>

text \<open>
  A taxonomy category; only its id and its type are read by the functions below. The
  taxonomy is \<open>None\<close> while it is \<^verbatim>\<open>null\<close> (or has no \<^verbatim>\<open>categories\<close>).
\<close>

record category =
  cid :: string
  ctype :: string

type_synonym taxonomy = "category list option"

text \<open>\<^verbatim>\<open>taxonomy?.categories?.find(c => c.id === categoryId)\<close>\<close>

definition find_category :: "taxonomy \<Rightarrow> string \<Rightarrow> category option" where
  "find_category taxonomy categoryId =
     (case taxonomy of None \<Rightarrow> None | Some cats \<Rightarrow> find (\<lambda>c. cid c = categoryId) cats)"

text \<open>
  The module state. \<open>activeFilters\<close> is the list of the object's own entries in
  iteration order: assigning to a present key keeps its place, a new key goes to the end
  (\<open>AList.update\<close>), \<^verbatim>\<open>delete\<close> removes the entry (\<open>AList.delete\<close>). The key
  \<^verbatim>\<open>__proto__\<close> is taken not to be assigned: assigning to it replaces the prototype
  of the object and adds no entry.
\<close>

record filter_state =
  activeFilters :: "(string \<times> selection) list"
  searchQuery :: string

definition init_state :: filter_state where
  "init_state = \<lparr>activeFilters = [], searchQuery = []\<rparr>"

subsection \<open>Strings\<close>

text \<open>\<^verbatim>\<open>toLowerCase\<close> and \<^verbatim>\<open>trim\<close>, on ASCII.\<close>

definition lower_char :: "char \<Rightarrow> char" where
  "lower_char c =
     (case map_of (zip ''ABCDEFGHIJKLMNOPQRSTUVWXYZ'' ''abcdefghijklmnopqrstuvwxyz'') c of
        None \<Rightarrow> c
      | Some l \<Rightarrow> l)"

definition toLowerCase :: "string \<Rightarrow> string" where
  "toLowerCase s = map lower_char s"

definition is_space :: "char \<Rightarrow> bool" where
  "is_space c = (let n = (of_char c :: nat) in n = 32 \<or> (9 \<le> n \<and> n \<le> 13))"

definition trim :: "string \<Rightarrow> string" where
  "trim s = rev (dropWhile is_space (rev (dropWhile is_space s)))"

text \<open>\<^verbatim>\<open>field.includes(query)\<close> on strings: \<open>query\<close> occurs in \<open>field\<close> as a contiguous run.\<close>

fun str_includes :: "string \<Rightarrow> string \<Rightarrow> bool" where
  "str_includes [] query = (query = [])"
| "str_includes (x # xs) query = (prefix query (x # xs) \<or> str_includes xs query)"

text \<open>\<^verbatim>\<open>value.split(c)\<close> for a one-character separator: never the empty list.\<close>

fun split_on :: "char \<Rightarrow> string \<Rightarrow> string list" where
  "split_on c [] = [[]]"
| "split_on c (x # xs) =
     (if x = c then [] # split_on c xs
      else (case split_on c xs of p # ps \<Rightarrow> (x # p) # ps | [] \<Rightarrow> [[x]]))"

subsection \<open>The match predicate\<close>

definition or_empty :: "string option \<Rightarrow> string" where
  "or_empty s = (case s of None \<Rightarrow> [] | Some t \<Rightarrow> t)"

definition searchFields :: "string \<Rightarrow> product \<Rightarrow> string list" where
  "searchFields currentLang p =
     map (\<lambda>s. toLowerCase (or_empty s))
       [Some (getName currentLang (name p)), prod_id p, Some (or_empty (modelNumber p)),
        grade p, series p]"

text \<open>\<^verbatim>\<open>values[0]\<close>\<close>

definition first_value :: "selection \<Rightarrow> prim" where
  "first_value values = (case values of Sel_Arr (v # _) \<Rightarrow> v | _ \<Rightarrow> PUndefined)"

text \<open>
  \<^verbatim>\<open>productValue !== filterValue\<close>: an array or another object is never identical to
  a primitive.
\<close>

definition strict_neq :: "jsval \<Rightarrow> prim \<Rightarrow> bool" where
  "strict_neq productValue filterValue =
     (case productValue of
        Arr _ \<Rightarrow> True
      | Prim v \<Rightarrow> \<not> strict_eq v filterValue
      | Obj \<Rightarrow> True)"

text \<open>
  One iteration of the loop over \<^verbatim>\<open>Object.entries(activeFilters)\<close>: true when the
  iteration executes \<^verbatim>\<open>return false\<close>.
\<close>

definition category_rejects :: "builtins \<Rightarrow> taxonomy \<Rightarrow> product \<Rightarrow> string \<times> selection \<Rightarrow> bool" where
  "category_rejects env taxonomy p entry =
     (case entry of (categoryId, values) \<Rightarrow>
      case find_category taxonomy categoryId of
        None \<Rightarrow> False
      | Some category \<Rightarrow>
          (let productValue = productValue_of p categoryId
           in if ctype category = ''range'' then
                (case values of
                   Sel_Range (Some mn) mx \<Rightarrow>
                     js_lt (to_number env productValue) mn
                     \<or> js_gt (to_number env productValue) (bound_to_number mx)
                 | _ \<Rightarrow> False)
              else if ctype category = ''boolean'' then
                (let filterValue = first_value values
                 in filterValue \<noteq> PUndefined \<and> strict_neq productValue filterValue)
              else
                (case values of
                   Sel_Arr vs \<Rightarrow>
                     vs \<noteq> [] \<and>
                     (case productValue of
                        Arr pv \<Rightarrow> \<not> list_ex (\<lambda>v. includes_val vs v) pv
                      | Prim v \<Rightarrow> \<not> includes_val vs v
                      | Obj \<Rightarrow> True)
                 | _ \<Rightarrow> False)))"

fun filters_loop :: "builtins \<Rightarrow> taxonomy \<Rightarrow> product \<Rightarrow> (string \<times> selection) list \<Rightarrow> bool" where
  "filters_loop env taxonomy p [] = True"
| "filters_loop env taxonomy p (entry # rest) =
     (if category_rejects env taxonomy p entry then False
      else filters_loop env taxonomy p rest)"

definition matchesFilters :: "builtins \<Rightarrow> string \<Rightarrow> taxonomy \<Rightarrow> filter_state \<Rightarrow> product \<Rightarrow> bool" where
  "matchesFilters env currentLang taxonomy st p =
     (if searchQuery st \<noteq> []
         \<and> \<not> list_ex (\<lambda>field. str_includes field (searchQuery st)) (searchFields currentLang p)
      then False
      else filters_loop env taxonomy p (activeFilters st))"

subsection \<open>The setters\<close>

text \<open>
  A setter returns the module state after the call, and \<open>Some TypeError\<close> when the call
  throws: \<^verbatim>\<open>includes\<close> and \<^verbatim>\<open>filter\<close> are not functions of a range object, nor
  of the inherited member that \<^verbatim>\<open>activeFilters[categoryId]\<close> finds when the object has
  no entry of its own under the name of such a member.
\<close>

datatype error = TypeError

definition setSearchQuery :: "string \<Rightarrow> filter_state \<Rightarrow> filter_state" where
  "setSearchQuery query st = st\<lparr>searchQuery := toLowerCase (trim query)\<rparr>"

definition setFilter :: "string \<Rightarrow> prim \<Rightarrow> bool \<Rightarrow> filter_state \<Rightarrow> error option \<times> filter_state" where
  "setFilter categoryId v isActive st =
     (let af = (case map_of (activeFilters st) categoryId of
                  None \<Rightarrow>
                    if categoryId \<in> set object_prototype_members then activeFilters st
                    else AList.update categoryId (Sel_Arr []) (activeFilters st)
                | Some _ \<Rightarrow> activeFilters st)
      in case map_of af categoryId of
           Some (Sel_Arr xs) \<Rightarrow>
             if isActive then
               (if \<not> includes_val xs v
                then (None, st\<lparr>activeFilters := AList.update categoryId (Sel_Arr (xs @ [v])) af\<rparr>)
                else (None, st\<lparr>activeFilters := af\<rparr>))
             else
               (let ys = filter (\<lambda>x. \<not> strict_eq x v) xs
                in if ys = []
                   then (None, st\<lparr>activeFilters := AList.delete categoryId af\<rparr>)
                   else (None, st\<lparr>activeFilters := AList.update categoryId (Sel_Arr ys) af\<rparr>))
         | _ \<Rightarrow> (Some TypeError, st\<lparr>activeFilters := af\<rparr>))"

definition toggleFilter :: "string \<Rightarrow> prim \<Rightarrow> filter_state \<Rightarrow> error option \<times> filter_state" where
  "toggleFilter categoryId v st =
     (case map_of (activeFilters st) categoryId of
        None \<Rightarrow>
          if categoryId \<in> set object_prototype_members then (Some TypeError, st)
          else setFilter categoryId v True st
      | Some (Sel_Arr xs) \<Rightarrow> setFilter categoryId v (\<not> includes_val xs v) st
      | Some (Sel_Range mn mx) \<Rightarrow> (Some TypeError, st))"

definition setRangeFilter :: "string \<Rightarrow> jsnum option \<Rightarrow> jsnum option \<Rightarrow> filter_state \<Rightarrow> filter_state" where
  "setRangeFilter categoryId mn mx st =
     st\<lparr>activeFilters := AList.update categoryId (Sel_Range mn mx) (activeFilters st)\<rparr>"

definition removeFilter :: "string \<Rightarrow> prim \<Rightarrow> filter_state \<Rightarrow> error option \<times> filter_state" where
  "removeFilter categoryId v st =
     (if v \<noteq> PUndefined then setFilter categoryId v False st
      else (None, st\<lparr>activeFilters := AList.delete categoryId (activeFilters st)\<rparr>))"

definition clearAllFilters :: "filter_state \<Rightarrow> filter_state" where
  "clearAllFilters st = st\<lparr>activeFilters := [], searchQuery := []\<rparr>"

subsection \<open>The URL\<close>

text \<open>
  The query string is the list of the key-value pairs of the \<^verbatim>\<open>URLSearchParams\<close>
  object; its percent-encoding and decoding are the browser's. \<^verbatim>\<open>params.set\<close> on the
  pairs built here, whose keys are distinct, is \<open>AList.update\<close>.
\<close>

definition bound_to_string :: "builtins \<Rightarrow> jsnum option \<Rightarrow> string" where
  "bound_to_string env b = (case b of None \<Rightarrow> ''undefined'' | Some n \<Rightarrow> numToString env n)"

fun updateURL_loop :: "builtins \<Rightarrow> (string \<times> selection) list \<Rightarrow> (string \<times> string) list \<Rightarrow> (string \<times> string) list" where
  "updateURL_loop env [] params = params"
| "updateURL_loop env ((key, values) # rest) params =
     (case values of
        Sel_Arr vs \<Rightarrow>
          if vs \<noteq> [] then updateURL_loop env rest (AList.update key (join env vs) params)
          else updateURL_loop env rest params
      | Sel_Range mn mx \<Rightarrow>
          if mn \<noteq> None
          then updateURL_loop env rest
                 (AList.update key (bound_to_string env mn @ ''-'' @ bound_to_string env mx) params)
          else updateURL_loop env rest params)"

definition updateURL :: "builtins \<Rightarrow> filter_state \<Rightarrow> (string \<times> string) list" where
  "updateURL env st =
     updateURL_loop env (activeFilters st)
       (if searchQuery st \<noteq> [] then [(''q'', searchQuery st)] else [])"

text \<open>\<^verbatim>\<open>const [min, max] = value.split('-').map(Number)\<close>\<close>

definition range_of_parts :: "jsnum list \<Rightarrow> selection" where
  "range_of_parts parts =
     (case parts of
        [] \<Rightarrow> Sel_Range None None
      | [a] \<Rightarrow> Sel_Range (Some a) None
      | a # b # _ \<Rightarrow> Sel_Range (Some a) (Some b))"

text \<open>The value assigned to \<^verbatim>\<open>activeFilters[key]\<close>, in either branch.\<close>

definition parse_value :: "builtins \<Rightarrow> category \<Rightarrow> string \<Rightarrow> selection" where
  "parse_value env category v =
     (if ctype category = ''range'' \<and> CHR ''-'' \<in> set v
      then range_of_parts (map (Number env) (split_on CHR ''-'' v))
      else Sel_Arr (map PStr (split_on CHR '','' v)))"

text \<open>One call of the \<^verbatim>\<open>params.forEach\<close> callback.\<close>

definition restore_entry :: "builtins \<Rightarrow> taxonomy \<Rightarrow> string \<times> string \<Rightarrow> (string \<times> selection) list \<Rightarrow> (string \<times> selection) list" where
  "restore_entry env taxonomy entry af =
     (case entry of (key, v) \<Rightarrow>
      if key = ''q'' then af
      else case find_category taxonomy key of
             None \<Rightarrow> af
           | Some category \<Rightarrow> AList.update key (parse_value env category v) af)"

fun restore_loop :: "builtins \<Rightarrow> taxonomy \<Rightarrow> (string \<times> string) list \<Rightarrow> (string \<times> selection) list \<Rightarrow> (string \<times> selection) list" where
  "restore_loop env taxonomy [] af = af"
| "restore_loop env taxonomy (entry # rest) af =
     restore_loop env taxonomy rest (restore_entry env taxonomy entry af)"

definition restoreFromURL :: "builtins \<Rightarrow> taxonomy \<Rightarrow> (string \<times> string) list \<Rightarrow> filter_state \<Rightarrow> filter_state" where
  "restoreFromURL env taxonomy params st =
     \<lparr>activeFilters = restore_loop env taxonomy params (activeFilters st),
      searchQuery = (case map_of params ''q'' of Some q \<Rightarrow> q | None \<Rightarrow> searchQuery st)\<rparr>"

subsection \<open>Sequences of operations\<close>

datatype operation =
    SetSearchQuery string
  | SetFilter string prim bool
  | ToggleFilter string prim
  | SetRangeFilter string "jsnum option" "jsnum option"
  | RemoveFilter string prim
  | ClearAllFilters
  | RestoreFromURL "(string \<times> string) list"

text \<open>
  The state after one call. A call that throws leaves the module state as it is at the
  throw, and the next call starts from there.
\<close>

fun apply_operation :: "builtins \<Rightarrow> taxonomy \<Rightarrow> operation \<Rightarrow> filter_state \<Rightarrow> filter_state" where
  "apply_operation env taxonomy (SetSearchQuery q) st = setSearchQuery q st"
| "apply_operation env taxonomy (SetFilter c v a) st = snd (setFilter c v a st)"
| "apply_operation env taxonomy (ToggleFilter c v) st = snd (toggleFilter c v st)"
| "apply_operation env taxonomy (SetRangeFilter c mn mx) st = setRangeFilter c mn mx st"
| "apply_operation env taxonomy (RemoveFilter c v) st = snd (removeFilter c v st)"
| "apply_operation env taxonomy ClearAllFilters st = clearAllFilters st"
| "apply_operation env taxonomy (RestoreFromURL params) st = restoreFromURL env taxonomy params st"

fun run :: "builtins \<Rightarrow> taxonomy \<Rightarrow> operation list \<Rightarrow> filter_state \<Rightarrow> filter_state" where
  "run env taxonomy [] st = st"
| "run env taxonomy (operation # rest) st = run env taxonomy rest (apply_operation env taxonomy operation st)"

section \<open>Concrete inputs\<close>

text \<open>
  An instance of the two built-in conversions, for evaluating the model on concrete inputs.
  It agrees with JavaScript on the strings made of decimal digits (the empty string is 0)
  and on the integers of magnitude below \<open>10\<^sup>2\<^sup>1\<close>, \<open>NaN\<close> and the infinities;
  on other arguments it is a placeholder, and no theorem below evaluates it there.
\<close>

definition is_digit :: "char \<Rightarrow> bool" where
  "is_digit c = (let n = (of_char c :: nat) in 48 \<le> n \<and> n \<le> 57)"

definition digits_value :: "string \<Rightarrow> nat" where
  "digits_value s = foldl (\<lambda>acc c. 10 * acc + (of_char c - 48)) 0 s"

fun nat_to_digits :: "nat \<Rightarrow> string" where
  "nat_to_digits n =
     (if n < 10 then [''0123456789'' ! n]
      else nat_to_digits (n div 10) @ [''0123456789'' ! (n mod 10)])"

declare nat_to_digits.simps [simp del]

definition decimal_Number :: "string \<Rightarrow> jsnum" where
  "decimal_Number s = (if list_all is_digit s then Fin (of_nat (digits_value s)) else NaN)"

definition decimal_numToString :: "jsnum \<Rightarrow> string" where
  "decimal_numToString n =
     (case n of
        NaN \<Rightarrow> ''NaN''
      | PInf \<Rightarrow> ''Infinity''
      | NInf \<Rightarrow> ''-Infinity''
      | Fin x \<Rightarrow>
          (case quotient_of x of
             (i, d) \<Rightarrow>
               if d = 1 then
                 (if 0 \<le> i then nat_to_digits (nat i) else CHR ''-'' # nat_to_digits (nat (- i)))
               else []))"

definition decimal_builtins :: builtins where
  "decimal_builtins = \<lparr>Number = decimal_Number, numToString = decimal_numToString\<rparr>"

definition blank_product :: product where
  "blank_product =
     \<lparr>name = NameMissing, prod_id = None, modelNumber = None, grade = None, series = None,
      props = Map.empty, filterData = None\<rparr>"

text \<open>The scenario of the specification: two products and one selection.\<close>

definition product_A :: product where
  "product_A = blank_product
     \<lparr>props := [''difficulty'' \<mapsto> Prim (PStr ''beginner''), ''mobility'' \<mapsto> Prim (PNum (Fin 4))]\<rparr>"

definition product_B :: product where
  "product_B = blank_product
     \<lparr>props := [''difficulty'' \<mapsto> Prim (PStr ''advanced''), ''mobility'' \<mapsto> Prim (PNum (Fin 4))]\<rparr>"

definition scenario_filters :: "(string \<times> selection) list" where
  "scenario_filters =
     [(''difficulty'', Sel_Arr [PStr ''beginner'']),
      (''mobility'', Sel_Range (Some (Fin 3)) (Some (Fin 5)))]"

text \<open>A product with a mobility and no difficulty.\<close>

definition product_no_difficulty :: product where
  "product_no_difficulty = blank_product
     \<lparr>filterData := Some [''mobility'' \<mapsto> Prim (PNum (Fin 4))]\<rparr>"

text \<open>Products with an array attribute: one with two values, one listing a value twice.\<close>

definition product_weapons :: product where
  "product_weapons = blank_product
     \<lparr>filterData := Some [''weaponCount'' \<mapsto> Arr [PStr ''many'', PStr ''standard'']]\<rparr>"

definition product_dup :: product where
  "product_dup = blank_product
     \<lparr>filterData := Some [''weaponCount'' \<mapsto> Arr [PStr ''many'', PStr ''many'']]\<rparr>"


text \<open>A taxonomy with one category of each type.\<close>

definition taxonomy_fixture :: taxonomy where
  "taxonomy_fixture =
     Some [\<lparr>cid = ''grade'', ctype = ''enum''\<rparr>,
           \<lparr>cid = ''difficulty'', ctype = ''enum''\<rparr>,
           \<lparr>cid = ''mobility'', ctype = ''range''\<rparr>,
           \<lparr>cid = ''weaponCount'', ctype = ''multi-enum''\<rparr>,
           \<lparr>cid = ''transformation'', ctype = ''boolean''\<rparr>]"

text \<open>A product with a difficulty and no mobility.\<close>

definition product_no_mobility :: product where
  "product_no_mobility = blank_product
     \<lparr>prod_id := Some ''hg-zaku'',
      filterData := Some [''difficulty'' \<mapsto> Prim (PStr ''beginner'')]\<rparr>"

text \<open>The product of the specification's text query example.\<close>

definition product_rx78 :: product where
  "product_rx78 = blank_product
     \<lparr>name := NameObj [''en'' \<mapsto> ''HG RX-78-2 Gundam (Revive)''],
      prod_id := Some ''hg-rx-78-2-revive'', modelNumber := Some ''RX-78-2'',
      grade := Some ''HG'', series := Some ''UC''\<rparr>"

text \<open>A sequence of setter calls, for the round trip through the URL.\<close>

definition roundtrip_ops :: "operation list" where
  "roundtrip_ops =
     [SetSearchQuery '' RX-78 '', ToggleFilter ''grade'' (PStr ''HG''),
      ToggleFilter ''grade'' (PStr ''MG''),
      SetRangeFilter ''mobility'' (Some (Fin 3)) (Some (Fin 5))]"

section \<open>Predicates of the properties\<close>

text \<open>
  The representation invariant of \<^verbatim>\<open>activeFilters\<close>: the keys of an object are
  distinct, and no key holds the empty array.
\<close>

definition wf_filters :: "(string \<times> selection) list \<Rightarrow> bool" where
  "wf_filters af = (distinct (map fst af) \<and> Sel_Arr [] \<notin> ran (map_of af))"

text \<open>
  The states that survive the round trip through the URL. A number is plain when its
  string has no hyphen and converts back to it; a value is plain when it is a string
  without a comma. An entry is safe when its key is a taxonomy category other than
  \<^verbatim>\<open>q\<close>, and it is an array of plain values whose joined string, in a range category,
  has no hyphen, or it is a range of plain numbers in a range category.
\<close>

definition plain_number :: "builtins \<Rightarrow> jsnum \<Rightarrow> bool" where
  "plain_number env n =
     (CHR ''-'' \<notin> set (numToString env n) \<and> Number env (numToString env n) = n)"

definition plain_string :: "prim \<Rightarrow> bool" where
  "plain_string v = (case v of PStr s \<Rightarrow> CHR '','' \<notin> set s | _ \<Rightarrow> False)"

definition url_safe_entry :: "builtins \<Rightarrow> taxonomy \<Rightarrow> string \<times> selection \<Rightarrow> bool" where
  "url_safe_entry env taxonomy entry =
     (case entry of (key, sel) \<Rightarrow>
        key \<noteq> ''q'' \<and>
        (case find_category taxonomy key of
           None \<Rightarrow> False
         | Some category \<Rightarrow>
             (case sel of
                Sel_Arr vs \<Rightarrow>
                  list_all plain_string vs
                  \<and> (ctype category \<noteq> ''range'' \<or> CHR ''-'' \<notin> set (join env vs))
              | Sel_Range mn mx \<Rightarrow>
                  ctype category = ''range''
                  \<and> (case mn of None \<Rightarrow> False | Some a \<Rightarrow> plain_number env a)
                  \<and> (case mx of None \<Rightarrow> False | Some b \<Rightarrow> plain_number env b))))"

text \<open>What \<^verbatim>\<open>updateURL\<close> writes for one entry.\<close>

definition serialize_value :: "builtins \<Rightarrow> selection \<Rightarrow> string" where
  "serialize_value env sel =
     (case sel of
        Sel_Arr vs \<Rightarrow> join env vs
      | Sel_Range mn mx \<Rightarrow> bound_to_string env mn @ ''-'' @ bound_to_string env mx)"

section \<open>Properties of the score function\<close>

lemmas product_defs = blank_product_def productValue_of_def get_field_def own_or_inherited_def
  object_prototype_members_def opt_str_def

lemmas score_defs = calculateMatchScore_def final_score_def score_step_def weight_of_def
  categoryWeights_def add_match_def add_weight_def add_number_def weight_times_def
  accum_to_number_def includes_val_def js_ge_def bound_to_number_def Let_def

text \<open>
  Claim C6. With the built-in weights (difficulty 3, mobility 2.5) and the selection
  \<^verbatim>\<open>{difficulty:['beginner'], mobility:{min:3,max:5}}\<close>, the score of a product with
  difficulty \<^verbatim>\<open>'beginner'\<close> and mobility 4 is 100, and the score of a product with
  difficulty \<^verbatim>\<open>'advanced'\<close> and mobility 4 is 45: the matched weight is 2.5 of 5.5, and
  250/5.5 = 45.45... rounds to 45.
\<close>

theorem scenario_scores:
  "calculateMatchScore env product_A scenario_filters = Fin 100
   \<and> calculateMatchScore env product_B scenario_filters = Fin 45"
  by (simp add: product_A_def product_B_def scenario_filters_def product_defs score_defs
      floor_eq_iff)

text \<open>The weight of a category that is not the name of an inherited member is a positive number.\<close>

lemma weight_of_pos: "weight_of categoryId = Weight w \<Longrightarrow> 0 < w"
  by (auto simp: weight_of_def categoryWeights_def split: option.splits if_splits)

lemma weight_of_number:
  "categoryId \<notin> set object_prototype_members \<Longrightarrow> \<exists>w. weight_of categoryId = Weight w \<and> 0 < w"
  by (cases "weight_of categoryId")
    (auto simp: weight_of_pos, auto simp: weight_of_def split: option.splits if_splits)

















text \<open>
  Claim C4, at the input where the code leaves the interval. The product lists the value
  \<^verbatim>\<open>'many'\<close> twice, the selection is \<^verbatim>\<open>{weaponCount:['many']}\<close>: the overlap has
  length 2, the selection length 1, and the score is 200.
\<close>

theorem duplicate_values_score:
  "calculateMatchScore decimal_builtins product_dup [(''weaponCount'', Sel_Arr [PStr ''many''])]
     = Fin 200"
  by (simp add: product_dup_def product_defs score_defs floor_eq_iff)

text \<open>
  Claim C5, at the input where the code departs from it. On the same product and
  selection the intersection has one element and the selection has one, so the claim's
  credit is the weight, 1.5; the code adds 3, twice the weight.
\<close>

theorem duplicate_values_credit:
  "score_step decimal_builtins product_dup (''weaponCount'', Sel_Arr [PStr ''many''])
     (ANum (Fin 0), ANum (Fin 0)) = (ANum (Fin (3 / 2)), ANum (Fin 3))
   \<and> card (set [PStr ''many'', PStr ''many''] \<inter> set [PStr ''many'']) = 1
   \<and> card (set [PStr ''many'']) = 1"
  by (simp add: product_dup_def product_defs score_defs)

text \<open>The example of the specification: the credit is half the weight.\<close>

lemma overlap_example:
  "add_match env (Weight w) (Arr [PStr ''many'', PStr ''standard''])
     (Sel_Arr [PStr ''standard'', PStr ''few'']) (ANum (Fin m)) = ANum (Fin (m + w * (1 / 2)))"
  by (simp add: add_match_def add_number_def weight_times_def includes_val_def)

text \<open>
  On arrays without repeated values the code agrees with the claim: the credit is the
  weight times the size of the intersection over the size of the selection.
\<close>

lemma overlap_length:
  "distinct pv \<Longrightarrow> length (filter (\<lambda>v. includes_val fv v) pv) = card (set pv \<inter> set fv)"
proof -
  assume d: "distinct pv"
  have "set (filter (\<lambda>v. includes_val fv v) pv) = set pv \<inter> set fv"
    by (auto simp: includes_val_def)
  moreover have "distinct (filter (\<lambda>v. includes_val fv v) pv)"
    using d by simp
  ultimately show ?thesis
    by (metis distinct_card)
qed

lemma add_match_distinct:
  assumes "distinct pv" "distinct fv" "fv \<noteq> []"
  shows "add_match env (Weight w) (Arr pv) (Sel_Arr fv) (ANum (Fin m))
           = ANum (Fin (m + w * (of_nat (card (set pv \<inter> set fv)) / of_nat (card (set fv)))))"
  using assms
  by (simp add: add_match_def add_number_def weight_times_def overlap_length distinct_card)

text \<open>
  The score stays an integer of the interval from 0 to 100 when no category is the name of
  an inherited member, no selection is an empty array and no array attribute of the
  product repeats a value.
\<close>

lemma add_match_bounds:
  assumes "sel \<noteq> Sel_Arr []" "\<And>pv. productValue = Arr pv \<Longrightarrow> distinct pv" "0 \<le> w"
  shows "\<exists>m'. add_match env (Weight w) productValue sel (ANum (Fin m)) = ANum (Fin m')
           \<and> m \<le> m' \<and> m' \<le> m + w"
proof (cases sel)
  case (Sel_Arr fv)
  with assms(1) have ne: "fv \<noteq> []" by simp
  show ?thesis
  proof (cases productValue)
    case (Prim v)
    then show ?thesis
      using Sel_Arr assms(3) by (simp add: add_match_def add_weight_def add_number_def)
  next
    case (Arr pv)
    then have d: "distinct pv" by (rule assms(2))
    let ?k = "card (set pv \<inter> set fv)"
    have "?k \<le> card (set fv)"
      by (simp add: card_mono)
    also have "\<dots> \<le> length fv"
      by (rule card_length)
    finally have k: "?k \<le> length fv" .
    have n: "0 < length fv" using ne by simp
    let ?r = "(of_nat ?k :: rat) / of_nat (length fv)"
    have r: "0 \<le> ?r" "?r \<le> 1"
      using k n by simp_all
    have "w * ?r \<le> w * 1"
      using r(2) assms(3) by (rule mult_left_mono)
    moreover have "0 \<le> w * ?r"
      using r(1) assms(3) by simp
    moreover have "add_match env (Weight w) productValue sel (ANum (Fin m))
                     = ANum (Fin (m + w * ?r))"
      using Arr Sel_Arr ne
      by (simp add: add_match_def add_number_def weight_times_def overlap_length [OF d])
    ultimately show ?thesis by simp
  next
    case Obj
    then show ?thesis
      using Sel_Arr assms(3) by (simp add: add_match_def)
  qed
next
  case (Sel_Range mn mx)
  then show ?thesis
    using assms(3) by (simp add: add_match_def add_weight_def add_number_def)
qed

lemma score_step_bounds:
  assumes "c \<notin> set object_prototype_members" "sel \<noteq> Sel_Arr []"
    and "\<And>pv. productValue_of p c = Arr pv \<Longrightarrow> distinct pv"
    and "0 \<le> m" "m \<le> t"
  shows "\<exists>t' m'. score_step env p (c, sel) (ANum (Fin t), ANum (Fin m))
             = (ANum (Fin t'), ANum (Fin m'))
           \<and> 0 \<le> m' \<and> m' \<le> t' \<and> t < t'"
proof -
  from weight_of_number [OF assms(1)] obtain w where w: "weight_of c = Weight w" "0 < w"
    by auto
  from add_match_bounds [OF assms(2,3), where w = w and env = env and m = m] w(2)
  obtain m' where "add_match env (Weight w) (productValue_of p c) sel (ANum (Fin m))
                     = ANum (Fin m')" "m \<le> m'" "m' \<le> m + w"
    by auto
  then show ?thesis
    using w assms(4,5) by (auto simp: score_step_def Let_def add_weight_def add_number_def)
qed

lemma score_loop_bounds:
  assumes "\<forall>(c, sel) \<in> set filters. c \<notin> set object_prototype_members \<and> sel \<noteq> Sel_Arr []"
    and "\<forall>(c, sel) \<in> set filters. \<forall>pv. productValue_of p c = Arr pv \<longrightarrow> distinct pv"
    and "0 \<le> m" "m \<le> t"
  shows "\<exists>t' m'. score_loop env p filters (ANum (Fin t), ANum (Fin m))
             = (ANum (Fin t'), ANum (Fin m'))
           \<and> 0 \<le> m' \<and> m' \<le> t' \<and> t \<le> t' \<and> (filters \<noteq> [] \<longrightarrow> t < t')"
  using assms
proof (induction filters arbitrary: t m)
  case Nil
  then show ?case by simp
next
  case (Cons entry rest)
  obtain c sel where e: "entry = (c, sel)" by (cases entry)
  have nm: "c \<notin> set object_prototype_members" and ne: "sel \<noteq> Sel_Arr []"
    using Cons.prems(1) e by auto
  have d: "distinct pv" if "productValue_of p c = Arr pv" for pv
    using Cons.prems(2) e that by auto
  from score_step_bounds [of c sel p m t env, OF nm ne d Cons.prems(3,4)]
  obtain t1 m1 where s: "score_step env p (c, sel) (ANum (Fin t), ANum (Fin m))
                           = (ANum (Fin t1), ANum (Fin m1))"
    and b: "0 \<le> m1" "m1 \<le> t1" "t < t1" by auto
  from Cons.prems(1,2)
  have "\<forall>(c, sel) \<in> set rest. c \<notin> set object_prototype_members \<and> sel \<noteq> Sel_Arr []"
    and "\<forall>(c, sel) \<in> set rest. \<forall>pv. productValue_of p c = Arr pv \<longrightarrow> distinct pv" by auto
  from Cons.IH [OF this b(1,2)] obtain t' m'
    where "score_loop env p rest (ANum (Fin t1), ANum (Fin m1)) = (ANum (Fin t'), ANum (Fin m'))"
      "0 \<le> m'" "m' \<le> t'" "t1 \<le> t'"
    by auto
  then show ?case
    using e s b(3) by auto
qed

lemma final_score_percent:
  assumes "0 \<le> m" "m \<le> t" "0 < t"
  shows "\<exists>n. final_score (ANum (Fin t), ANum (Fin m)) = Fin (of_int n) \<and> 0 \<le> n \<and> n \<le> 100"
proof -
  let ?x = "m / t * 100"
  have "0 \<le> ?x" using assms by simp
  moreover have "m / t \<le> 1" using assms by simp
  then have "m / t * 100 \<le> 1 * 100" by (rule mult_right_mono) simp
  then have "?x \<le> 100" by simp
  ultimately have "0 \<le> \<lfloor>?x + 1 / 2\<rfloor>" "\<lfloor>?x + 1 / 2\<rfloor> \<le> 100"
    by (simp_all add: le_floor_iff floor_le_iff)
  then show ?thesis
    using assms(3) by (simp add: final_score_def accum_to_number_def)
qed

lemma score_in_range:
  assumes "\<forall>(c, sel) \<in> set filters. c \<notin> set object_prototype_members \<and> sel \<noteq> Sel_Arr []"
    and "\<forall>(c, sel) \<in> set filters. \<forall>pv. productValue_of p c = Arr pv \<longrightarrow> distinct pv"
  shows "\<exists>n. calculateMatchScore env p filters = Fin (of_int n) \<and> 0 \<le> n \<and> n \<le> 100"
proof (cases "filters = []")
  case True
  then have "calculateMatchScore env p filters = Fin (of_int 0)"
    by (simp add: calculateMatchScore_def)
  then show ?thesis by force
next
  case False
  from score_loop_bounds [OF assms, where m = 0 and t = 0 and env = env] False
  obtain t m where "score_loop env p filters (ANum (Fin 0), ANum (Fin 0))
                      = (ANum (Fin t), ANum (Fin m))" "0 \<le> m" "m \<le> t" "0 < t"
    by auto
  then show ?thesis
    using False final_score_percent [of m t] by (simp add: calculateMatchScore_def)
qed

text \<open>
  The scenario's scores do not depend on the exact value of the quotient: every number
  within a thousandth of 250/5.5 rounds to 45, and every one within a thousandth of 100
  rounds to 100.
\<close>

lemma scenario_rounding_margin:
  assumes "\<bar>r - 500 / 11\<bar> \<le> 1 / 1000" "\<bar>s - 100\<bar> \<le> 1 / 1000"
  shows "js_round (Fin r) = Fin 45 \<and> js_round (Fin s) = Fin 100"
proof -
  have "45 \<le> r + 1 / 2" "r + 1 / 2 < 46" "100 \<le> s + 1 / 2" "s + 1 / 2 < 101"
    using assms by linarith+
  then have "\<lfloor>r + 1 / 2\<rfloor> = 45" "\<lfloor>s + 1 / 2\<rfloor> = 100"
    by (simp_all add: floor_eq_iff)
  then show ?thesis by simp
qed

section \<open>Properties of the match predicate\<close>

lemmas match_defs = matchesFilters_def category_rejects_def find_category_def searchFields_def
  or_empty_def getName_def toLowerCase_def lower_char_def first_value_def strict_neq_def
  strict_eq_def js_gt_def bound_to_number_def includes_val_def Let_def

lemmas setter_defs = init_state_def setSearchQuery_def setFilter_def toggleFilter_def
  setRangeFilter_def removeFilter_def clearAllFilters_def trim_def is_space_def
  object_prototype_members_def

text \<open>
  Claim C1, at the input where the code departs from it. The product has no mobility and
  the range selection \<^verbatim>\<open>{min:3,max:5}\<close> is active on the range category mobility: both
  comparisons with \<^verbatim>\<open>undefined\<close> are false and the product passes. The enum branch of
  the same function excludes a product that has no value for the selected category.
\<close>

theorem missing_value_passes_range:
  "productValue_of product_no_mobility ''mobility'' = Prim PUndefined
   \<and> matchesFilters decimal_builtins ''en'' taxonomy_fixture
        (setRangeFilter ''mobility'' (Some (Fin 3)) (Some (Fin 5)) init_state) product_no_mobility
   \<and> \<not> matchesFilters decimal_builtins ''en'' taxonomy_fixture
        (snd (setFilter ''difficulty'' (PStr ''beginner'') True init_state)) product_no_difficulty"
  by (simp add: product_no_mobility_def product_no_difficulty_def taxonomy_fixture_def
      product_defs match_defs setter_defs)

text \<open>
  For a product whose value is a number the range check is the inclusive interval test;
  a missing value is never rejected by a range category.
\<close>

lemma range_rejects_iff:
  assumes "find_category taxonomy categoryId = Some category" "ctype category = ''range''"
    and "productValue_of p categoryId = Prim (PNum (Fin v))"
  shows "category_rejects env taxonomy p (categoryId, Sel_Range (Some (Fin a)) (Some (Fin b)))
           \<longleftrightarrow> \<not> (a \<le> v \<and> v \<le> b)"
  using assms by (auto simp: category_rejects_def js_gt_def bound_to_number_def)

lemma range_never_rejects_missing:
  assumes "productValue_of p categoryId = Prim PUndefined"
    and "find_category taxonomy categoryId = Some category" "ctype category = ''range''"
  shows "\<not> category_rejects env taxonomy p (categoryId, Sel_Range mn mx)"
  using assms
  by (cases mn; cases mx) (auto simp: category_rejects_def js_gt_def bound_to_number_def)

text \<open>The loop accepts a product iff no iteration rejects it.\<close>

lemma filters_loop_iff:
  "filters_loop env taxonomy p af \<longleftrightarrow> (\<forall>entry \<in> set af. \<not> category_rejects env taxonomy p entry)"
  by (induction af) auto

lemma range_match_iff:
  assumes "find_category taxonomy categoryId = Some category" "ctype category = ''range''"
    and "productValue_of p categoryId = Prim (PNum (Fin v))"
  shows "matchesFilters env currentLang taxonomy
           \<lparr>activeFilters = [(categoryId, Sel_Range (Some (Fin a)) (Some (Fin b)))],
            searchQuery = []\<rparr> p
         \<longleftrightarrow> a \<le> v \<and> v \<le> b"
  using range_rejects_iff [OF assms] by (simp add: matchesFilters_def)

lemma str_includes_sublist: "str_includes field query \<longleftrightarrow> sublist query field"
  by (induction field) (auto simp: sublist_Cons_right)

text \<open>
  Claim C9, as the code has it. After \<^verbatim>\<open>setSearchQuery(query)\<close> the stored query is
  the trimmed, lower-cased \<open>query\<close>. A product matches iff that query is empty or occurs
  as a contiguous run in the lower-cased display name, id, model number, grade or series,
  and no active category rejects the product; so a query that occurs in none of the five
  fields excludes the product whatever the categories say. Nothing is skipped inside a
  field: the match is a plain substring test.
\<close>

theorem text_query_match:
  "matchesFilters env currentLang taxonomy (setSearchQuery query st) p \<longleftrightarrow>
     (let q = toLowerCase (trim query)
      in (q = []
          \<or> sublist q (toLowerCase (getName currentLang (name p)))
          \<or> sublist q (toLowerCase (or_empty (prod_id p)))
          \<or> sublist q (toLowerCase (or_empty (modelNumber p)))
          \<or> sublist q (toLowerCase (or_empty (grade p)))
          \<or> sublist q (toLowerCase (or_empty (series p))))
         \<and> filters_loop env taxonomy p (activeFilters st))"
  by (auto simp: matchesFilters_def setSearchQuery_def searchFields_def str_includes_sublist
      Let_def or_empty_def)

theorem text_query_match_witness:
  "matchesFilters decimal_builtins ''en'' taxonomy_fixture
     (setSearchQuery '' RX-78 '' init_state) product_rx78"
  using text_query_match [of decimal_builtins "''en''" taxonomy_fixture "'' RX-78 ''" init_state
      product_rx78]
  by (simp add: product_rx78_def taxonomy_fixture_def product_defs match_defs setter_defs)

text \<open>
  The example of the claim fails: the query \<^verbatim>\<open>rx78\<close> does not occur in the id
  \<^verbatim>\<open>hg-rx-78-2-revive\<close>, nor in the other fields of the product, and the product is
  excluded.
\<close>

theorem text_query_counterexample:
  "\<not> matchesFilters decimal_builtins ''en'' taxonomy_fixture
      (setSearchQuery ''rx78'' init_state) product_rx78"
  by (simp add: product_rx78_def taxonomy_fixture_def product_defs match_defs setter_defs)

section \<open>Properties of the module state\<close>

lemma split_on_not_Nil: "split_on c s \<noteq> []"
  by (induction s) (auto split: list.splits)

lemma wf_update:
  "wf_filters af \<Longrightarrow> sel \<noteq> Sel_Arr [] \<Longrightarrow> wf_filters (AList.update k sel af)"
  by (auto simp: wf_filters_def distinct_update update_conv' ran_def)

lemma wf_delete: "wf_filters af \<Longrightarrow> wf_filters (AList.delete k af)"
  by (auto simp: wf_filters_def distinct_delete delete_conv' ran_def)

lemma wf_update_delete:
  "wf_filters af \<Longrightarrow> wf_filters (AList.delete k (AList.update k sel af))"
  by (auto simp: wf_filters_def distinct_delete distinct_update delete_conv' update_conv' ran_def)

lemma wf_update_update:
  "wf_filters af \<Longrightarrow> sel \<noteq> Sel_Arr [] \<Longrightarrow>
   wf_filters (AList.update k sel (AList.update k sel' af))"
  by (auto simp: wf_filters_def distinct_update update_conv' ran_def)

lemma wf_setFilter:
  "wf_filters (activeFilters st) \<Longrightarrow> wf_filters (activeFilters (snd (setFilter c v a st)))"
  by (auto simp: setFilter_def Let_def update_conv' includes_val_def wf_update wf_delete
      wf_update_delete wf_update_update split: option.splits selection.splits)

lemma wf_toggleFilter:
  "wf_filters (activeFilters st) \<Longrightarrow> wf_filters (activeFilters (snd (toggleFilter c v st)))"
  by (auto simp: toggleFilter_def wf_setFilter split: option.splits selection.splits)

lemma wf_removeFilter:
  "wf_filters (activeFilters st) \<Longrightarrow> wf_filters (activeFilters (snd (removeFilter c v st)))"
  by (auto simp: removeFilter_def wf_setFilter wf_delete)

lemma wf_restore_entry: "wf_filters af \<Longrightarrow> wf_filters (restore_entry env taxonomy entry af)"
  by (auto simp: restore_entry_def parse_value_def range_of_parts_def split_on_not_Nil
      intro!: wf_update split: option.splits list.splits prod.splits)

lemma wf_restore_loop: "wf_filters af \<Longrightarrow> wf_filters (restore_loop env taxonomy params af)"
  by (induction params arbitrary: af) (auto simp: wf_restore_entry)

lemma wf_apply_operation:
  assumes "wf_filters (activeFilters st)"
  shows "wf_filters (activeFilters (apply_operation env taxonomy operation st))"
proof (cases operation)
  case (SetRangeFilter c mn mx)
  then show ?thesis
    using assms by (simp add: setRangeFilter_def wf_update)
next
  case ClearAllFilters
  then show ?thesis
    by (simp add: clearAllFilters_def wf_filters_def)
qed (use assms in \<open>simp_all add: setSearchQuery_def wf_setFilter wf_toggleFilter wf_removeFilter
      restoreFromURL_def wf_restore_loop\<close>)

lemma wf_run:
  "wf_filters (activeFilters st) \<Longrightarrow> wf_filters (activeFilters (run env taxonomy ops st))"
  by (induction ops arbitrary: st) (auto simp: wf_apply_operation)

lemma wf_init: "wf_filters (activeFilters init_state)"
  by (simp add: init_state_def wf_filters_def)

lemma wf_no_empty: "wf_filters af \<Longrightarrow> Sel_Arr [] \<notin> snd ` set af"
  by (auto simp: wf_filters_def ran_def)

lemma removeFilter_last:
  assumes "map_of (activeFilters st) c = Some (Sel_Arr [v])" "strict_eq v v"
  shows "map_of (activeFilters (snd (removeFilter c v st))) c = None"
  using assms by (auto simp: removeFilter_def setFilter_def Let_def delete_conv')

text \<open>
  Under the name of an inherited member for which the object has no entry, \<^verbatim>\<open>setFilter\<close>
  and \<^verbatim>\<open>toggleFilter\<close> throw and leave the state as it is.
\<close>

lemma setFilter_inherited:
  assumes "categoryId \<in> set object_prototype_members"
    and "map_of (activeFilters st) categoryId = None"
  shows "setFilter categoryId v isActive st = (Some TypeError, st)"
    and "toggleFilter categoryId v st = (Some TypeError, st)"
  using assms by (simp_all add: setFilter_def toggleFilter_def)

text \<open>
  Claim C8. After any sequence of \<^verbatim>\<open>setSearchQuery\<close>, \<^verbatim>\<open>setFilter\<close>,
  \<^verbatim>\<open>toggleFilter\<close>, \<^verbatim>\<open>setRangeFilter\<close>, \<^verbatim>\<open>removeFilter\<close>, \<^verbatim>\<open>clearAllFilters\<close>
  and \<^verbatim>\<open>restoreFromURL\<close> calls from the initial state, calls that throw included, no
  category is mapped to the empty array; and removing the only value of a category deletes
  the category.
\<close>

theorem selections_never_empty:
  "Sel_Arr [] \<notin> snd ` set (activeFilters (run env taxonomy ops init_state))
   \<and> (map_of (activeFilters (run env taxonomy ops init_state)) c = Some (Sel_Arr [v])
        \<and> strict_eq v v
      \<longrightarrow> map_of (activeFilters (snd (removeFilter c v (run env taxonomy ops init_state)))) c
            = None)"
  using wf_no_empty [OF wf_run [OF wf_init]] removeFilter_last by blast

theorem selections_never_empty_witness:
  "map_of (activeFilters (run decimal_builtins taxonomy_fixture
      [ToggleFilter ''grade'' (PStr ''HG'')] init_state)) ''grade'' = Some (Sel_Arr [PStr ''HG''])
   \<and> strict_eq (PStr ''HG'') (PStr ''HG'')
   \<and> map_of (activeFilters (snd (removeFilter ''grade'' (PStr ''HG'')
        (run decimal_builtins taxonomy_fixture [ToggleFilter ''grade'' (PStr ''HG'')] init_state))))
        ''grade'' = None
   \<and> activeFilters (run decimal_builtins taxonomy_fixture
        [ToggleFilter ''grade'' (PStr ''HG''), ToggleFilter ''grade'' (PStr ''MG''),
         ToggleFilter ''grade'' (PStr ''HG''), RemoveFilter ''grade'' (PStr ''MG''),
         RestoreFromURL [(''difficulty'', '''')]] init_state)
       = [(''difficulty'', Sel_Arr [PStr ''''])]"
  using selections_never_empty [of decimal_builtins taxonomy_fixture
      "[ToggleFilter ''grade'' (PStr ''HG'')]" "''grade''" "PStr ''HG''"]
  by (simp add: setter_defs includes_val_def strict_eq_def restoreFromURL_def restore_entry_def
      parse_value_def taxonomy_fixture_def find_category_def)

section \<open>Properties of the URL state\<close>

lemma restore_entry_other:
  "key \<noteq> fst entry \<Longrightarrow> map_of (restore_entry env taxonomy entry af) key = map_of af key"
  by (cases entry) (auto simp: restore_entry_def update_conv' split: option.splits)

lemma restore_entry_same:
  "key \<noteq> ''q'' \<Longrightarrow> find_category taxonomy key = Some category \<Longrightarrow>
   map_of (restore_entry env taxonomy (key, v) af) key = Some (parse_value env category v)"
  by (simp add: restore_entry_def update_conv')

lemma restore_loop_absent:
  "key \<notin> fst ` set params \<Longrightarrow> map_of (restore_loop env taxonomy params af) key = map_of af key"
  by (induction params arbitrary: af) (auto simp: restore_entry_other)

lemma restore_loop_present:
  assumes "key \<noteq> ''q''" "find_category taxonomy key = Some category"
  shows "key \<in> fst ` set params \<Longrightarrow>
     \<exists>v. (key, v) \<in> set params
       \<and> map_of (restore_loop env taxonomy params af) key = Some (parse_value env category v)"
proof (induction params arbitrary: af)
  case Nil
  then show ?case by simp
next
  case (Cons entry rest)
  show ?case
  proof (cases "key \<in> fst ` set rest")
    case True
    from Cons.IH [OF True, of "restore_entry env taxonomy entry af"]
    show ?thesis by auto
  next
    case False
    with Cons.prems have k: "fst entry = key" by auto
    then obtain v where e: "entry = (key, v)" by (cases entry) auto
    have "map_of (restore_loop env taxonomy (entry # rest) af) key
            = map_of (restore_entry env taxonomy entry af) key"
      using False by (simp add: restore_loop_absent)
    also have "\<dots> = Some (parse_value env category v)"
      using assms e by (simp add: restore_entry_same)
    finally show ?thesis using e by auto
  qed
qed

text \<open>
  Claim C7, as the code has it. No key is dropped for its value: every key of the query
  string other than \<^verbatim>\<open>q\<close> that is a category of the taxonomy is in the restored state,
  mapped to what the code makes of one of the values given for it: for a range category
  and a value with a hyphen, the range of \<^verbatim>\<open>Number\<close> of the first two parts, whatever
  numbers these are; otherwise the list of the comma-separated parts.
\<close>

theorem unparseable_range_kept:
  assumes "key \<in> fst ` set params" "key \<noteq> ''q''" "find_category taxonomy key = Some category"
  shows "\<exists>v. (key, v) \<in> set params
           \<and> map_of (activeFilters (restoreFromURL env taxonomy params st)) key
               = Some (parse_value env category v)"
  using restore_loop_present [OF assms(2,3) assms(1)] by (simp add: restoreFromURL_def)

theorem unparseable_range_kept_witness:
  "''mobility'' \<in> fst ` set [(''q'', ''zaku''), (''mobility'', ''abc'')]
   \<and> find_category taxonomy_fixture ''mobility'' = Some \<lparr>cid = ''mobility'', ctype = ''range''\<rparr>
   \<and> map_of (activeFilters (restoreFromURL decimal_builtins taxonomy_fixture
        [(''q'', ''zaku''), (''mobility'', ''abc'')] init_state)) ''mobility''
       = Some (Sel_Arr [PStr ''abc''])"
proof -
  have h1: "''mobility'' \<in> fst ` set [(''q'', ''zaku''), (''mobility'', ''abc'')]"
    by simp
  have h2: "''mobility'' \<noteq> ''q''"
    by simp
  have h3: "find_category taxonomy_fixture ''mobility''
              = Some \<lparr>cid = ''mobility'', ctype = ''range''\<rparr>"
    by (simp add: taxonomy_fixture_def find_category_def)
  from unparseable_range_kept [OF h1 h2 h3, of decimal_builtins init_state] h1 h3
  show ?thesis
    by (auto simp: parse_value_def)
qed

text \<open>
  The claim as stated fails: the value \<^verbatim>\<open>abc\<close> of the range category mobility is kept
  as the list \<^verbatim>\<open>['abc']\<close>, and the value \<^verbatim>\<open>3-\<close> is kept as the range from 3 to
  \<^verbatim>\<open>Number('')\<close>, which is 0.
\<close>

theorem unparseable_range_counterexample:
  "activeFilters (restoreFromURL decimal_builtins taxonomy_fixture
      [(''mobility'', ''abc''), (''grade'', ''HG,MG'')] init_state)
     = [(''mobility'', Sel_Arr [PStr ''abc'']), (''grade'', Sel_Arr [PStr ''HG'', PStr ''MG''])]
   \<and> activeFilters (restoreFromURL decimal_builtins taxonomy_fixture
      [(''mobility'', ''3-'')] init_state)
     = [(''mobility'', Sel_Range (Some (Fin 3)) (Some (Fin 0)))]"
  by (simp add: restoreFromURL_def restore_entry_def parse_value_def range_of_parts_def
      taxonomy_fixture_def find_category_def init_state_def decimal_builtins_def
      decimal_Number_def is_digit_def digits_value_def)

lemma split_on_no_sep: "c \<notin> set s \<Longrightarrow> split_on c s = [s]"
  by (induction s) auto

lemma split_on_append: "c \<notin> set s \<Longrightarrow> split_on c (s @ c # t) = s # split_on c t"
  by (induction s) auto

lemma split_join:
  "ss \<noteq> [] \<Longrightarrow> \<forall>s\<in>set ss. c \<notin> set s \<Longrightarrow> split_on c (join_strings c ss) = ss"
  by (induction c ss rule: join_strings.induct) (auto simp: split_on_no_sep split_on_append)

lemma join_elem_plain: "list_all plain_string vs \<Longrightarrow> map PStr (map (join_elem env) vs) = vs"
  by (induction vs) (auto simp: plain_string_def split: prim.splits)

lemma join_elem_no_comma:
  "list_all plain_string vs \<Longrightarrow> \<forall>s\<in>set (map (join_elem env) vs). CHR '','' \<notin> set s"
  by (induction vs) (auto simp: plain_string_def split: prim.splits)

text \<open>Parsing undoes serialising on a safe entry.\<close>

lemma parse_serialize:
  assumes "url_safe_entry env taxonomy (key, sel)" "find_category taxonomy key = Some category"
    and "sel \<noteq> Sel_Arr []"
  shows "parse_value env category (serialize_value env sel) = sel"
proof (cases sel)
  case (Sel_Arr vs)
  with assms have p: "list_all plain_string vs" and ne: "vs \<noteq> []"
    and d: "ctype category \<noteq> ''range'' \<or> CHR ''-'' \<notin> set (join env vs)"
    by (auto simp: url_safe_entry_def)
  have "split_on CHR '','' (join env vs) = map (join_elem env) vs"
    unfolding join_def using ne join_elem_no_comma [OF p] by (intro split_join) auto
  then show ?thesis
    using d Sel_Arr join_elem_plain [OF p]
    by (auto simp: parse_value_def serialize_value_def)
next
  case (Sel_Range mn mx)
  with assms obtain a b where ab: "mn = Some a" "mx = Some b"
    and r: "ctype category = ''range''" and pa: "plain_number env a" and pb: "plain_number env b"
    by (auto simp: url_safe_entry_def split: option.splits)
  have "split_on CHR ''-'' (numToString env a @ CHR ''-'' # numToString env b)
          = [numToString env a, numToString env b]"
    using pa pb by (simp add: plain_number_def split_on_append split_on_no_sep)
  then show ?thesis
    using Sel_Range ab r pa pb
    by (simp add: parse_value_def serialize_value_def bound_to_string_def range_of_parts_def
        plain_number_def)
qed

lemma update_fresh: "k \<notin> fst ` set al \<Longrightarrow> AList.update k v al = al @ [(k, v)]"
  by (induction al) auto

text \<open>\<^verbatim>\<open>updateURL\<close> appends one pair per entry, in order.\<close>

lemma updateURL_loop_fresh:
  assumes "distinct (map fst af)" "fst ` set af \<inter> fst ` set params = {}"
    and "\<forall>(k, sel) \<in> set af. sel \<noteq> Sel_Arr [] \<and> (\<forall>mx. sel \<noteq> Sel_Range None mx)"
  shows "updateURL_loop env af params
           = params @ map (\<lambda>(k, sel). (k, serialize_value env sel)) af"
  using assms
proof (induction af arbitrary: params)
  case Nil
  then show ?case by simp
next
  case (Cons entry rest)
  obtain k sel where e: "entry = (k, sel)" by (cases entry)
  have fresh: "k \<notin> fst ` set params" using Cons.prems(2) e by auto
  have ih: "updateURL_loop env rest (params @ [(k, serialize_value env sel)])
      = (params @ [(k, serialize_value env sel)])
          @ map (\<lambda>(k, sel). (k, serialize_value env sel)) rest"
    using Cons.prems e by (intro Cons.IH) auto
  show ?case
  proof (cases sel)
    case (Sel_Arr vs)
    then have "vs \<noteq> []" using Cons.prems(3) e by auto
    then show ?thesis
      using ih e Sel_Arr fresh by (simp add: update_fresh serialize_value_def)
  next
    case (Sel_Range mn mx)
    then have "mn \<noteq> None" using Cons.prems(3) e by auto
    then show ?thesis
      using ih e Sel_Range fresh by (simp add: update_fresh serialize_value_def)
  qed
qed

text \<open>\<^verbatim>\<open>restoreFromURL\<close> rebuilds the entries from these pairs, in order.\<close>

lemma restore_loop_serialized:
  assumes "distinct (map fst af)" "fst ` set af \<inter> fst ` set acc = {}"
    and "list_all (url_safe_entry env taxonomy) af" "Sel_Arr [] \<notin> snd ` set af"
  shows "restore_loop env taxonomy (map (\<lambda>(k, sel). (k, serialize_value env sel)) af) acc
           = acc @ af"
  using assms
proof (induction af arbitrary: acc)
  case Nil
  then show ?case by simp
next
  case (Cons entry rest)
  obtain k sel where e: "entry = (k, sel)" by (cases entry)
  from Cons.prems e have safe: "url_safe_entry env taxonomy (k, sel)" and ne: "sel \<noteq> Sel_Arr []"
    by (auto simp: image_iff)
  from safe obtain category where c: "find_category taxonomy k = Some category" and q: "k \<noteq> ''q''"
    by (auto simp: url_safe_entry_def split: option.splits)
  have fresh: "k \<notin> fst ` set acc" using Cons.prems(2) e by auto
  have step: "restore_entry env taxonomy (k, serialize_value env sel) acc = acc @ [(k, sel)]"
    using c q fresh parse_serialize [OF safe c ne] by (simp add: restore_entry_def update_fresh)
  have "restore_loop env taxonomy (map (\<lambda>(k, sel). (k, serialize_value env sel)) rest)
          (acc @ [(k, sel)]) = (acc @ [(k, sel)]) @ rest"
    using Cons.prems e by (intro Cons.IH) (auto simp: image_iff)
  then show ?case using e step by simp
qed

lemma url_safe_keys: "list_all (url_safe_entry env taxonomy) af \<Longrightarrow> ''q'' \<notin> fst ` set af"
  by (auto simp: list_all_iff url_safe_entry_def)

lemma url_safe_serializes:
  "list_all (url_safe_entry env taxonomy) af \<Longrightarrow> Sel_Arr [] \<notin> snd ` set af \<Longrightarrow>
   \<forall>(k, sel) \<in> set af. sel \<noteq> Sel_Arr [] \<and> (\<forall>mx. sel \<noteq> Sel_Range None mx)"
  by (auto simp: list_all_iff url_safe_entry_def image_iff split: option.splits)

lemma roundtrip_wf:
  fixes st :: filter_state
  assumes "wf_filters (activeFilters st)"
    and "list_all (url_safe_entry env taxonomy) (activeFilters st)"
  shows "restoreFromURL env taxonomy (updateURL env st) init_state = st"
proof -
  let ?af = "activeFilters st"
  let ?ser = "map (\<lambda>(k, sel). (k, serialize_value env sel)) ?af"
  let ?p0 = "if searchQuery st \<noteq> [] then [(''q'', searchQuery st)] else []"
  have d: "distinct (map fst ?af)" and ne: "Sel_Arr [] \<notin> snd ` set ?af"
    using assms(1) wf_no_empty by (auto simp: wf_filters_def)
  have q: "''q'' \<notin> fst ` set ?af"
    by (rule url_safe_keys [OF assms(2)])
  have "fst ` set ?af \<inter> fst ` set ?p0 = {}"
    using q by (auto simp: image_iff)
  then have u: "updateURL env st = ?p0 @ ?ser"
    unfolding updateURL_def using d url_safe_serializes [OF assms(2) ne]
    by (intro updateURL_loop_fresh)
  have r: "restore_loop env taxonomy ?ser [] = ?af"
    using restore_loop_serialized [OF d _ assms(2) ne, of "[]"] by simp
  have a: "restore_loop env taxonomy (?p0 @ ?ser) [] = ?af"
    using r by (simp add: restore_entry_def)
  have "''q'' \<notin> fst ` set ?ser"
    using q by (auto simp: image_iff)
  then have "map_of ?ser ''q'' = None"
    by (simp add: map_of_eq_None_iff)
  then have s: "(case map_of (?p0 @ ?ser) ''q'' of Some q \<Rightarrow> q | None \<Rightarrow> []) = searchQuery st"
    by simp
  have i: "activeFilters init_state = []" "searchQuery init_state = []"
    by (simp_all add: init_state_def)
  have "restoreFromURL env taxonomy (updateURL env st) init_state
          = \<lparr>activeFilters = ?af, searchQuery = searchQuery st\<rparr>"
    by (simp only: restoreFromURL_def u i a s)
  then show ?thesis
    by simp
qed

text \<open>
  The instance of the built-in conversions makes every natural number plain: its string
  is made of digits and converts back to it.
\<close>

lemma digit_char: "k < 10 \<Longrightarrow> is_digit (''0123456789'' ! k) \<and> of_char (''0123456789'' ! k) - 48 = k"
proof -
  assume "k < 10"
  then have "k \<in> {0, 1, 2, 3, 4, 5, 6, 7, 8, 9}"
    by auto
  then show ?thesis
    by (auto simp: is_digit_def)
qed

lemma digits_value_snoc: "digits_value (s @ [c]) = 10 * digits_value s + (of_char c - 48)"
  by (simp add: digits_value_def)

lemma nat_to_digits_correct:
  "list_all is_digit (nat_to_digits n) \<and> digits_value (nat_to_digits n) = n"
proof (induction n rule: nat_to_digits.induct)
  case (1 n)
  show ?case
  proof (cases "n < 10")
    case True
    then show ?thesis
      using digit_char [OF True] by (simp add: nat_to_digits.simps [of n] digits_value_def)
  next
    case False
    have m: "n mod 10 < 10" by simp
    from "1" False have ih: "list_all is_digit (nat_to_digits (n div 10))"
      "digits_value (nat_to_digits (n div 10)) = n div 10" by simp_all
    then show ?thesis
      using False digit_char [OF m]
      by (simp add: nat_to_digits.simps [of n] digits_value_snoc)
  qed
qed

lemma decimal_plain_number: "plain_number decimal_builtins (Fin (of_nat n))"
proof -
  have s: "decimal_numToString (Fin (of_nat n)) = nat_to_digits n"
    by (simp add: decimal_numToString_def)
  have d: "list_all is_digit (nat_to_digits n)"
    by (simp add: nat_to_digits_correct)
  have "\<not> is_digit CHR ''-''"
    by (simp add: is_digit_def)
  then have "CHR ''-'' \<notin> set (nat_to_digits n)"
    using d by (auto simp: list_all_iff)
  moreover have "decimal_Number (nat_to_digits n) = Fin (of_nat n)"
    using d by (simp add: decimal_Number_def nat_to_digits_correct)
  ultimately show ?thesis
    by (simp add: plain_number_def decimal_builtins_def s)
qed

lemmas builtin_defs = decimal_builtins_def decimal_Number_def decimal_numToString_def is_digit_def
  digits_value_def nat_to_digits.simps

lemmas url_defs = updateURL_def restoreFromURL_def restore_entry_def parse_value_def
  range_of_parts_def bound_to_string_def join_def find_category_def

text \<open>
  Claim C3, as the code has it. For a state reached from the initial one by the setters
  (and \<^verbatim>\<open>restoreFromURL\<close>) whose entries are all safe, writing the state to the URL and
  restoring the URL into the initial state under the same taxonomy gives the state back:
  the same query, the same keys in the same order, the same values.
\<close>

theorem url_roundtrip:
  assumes "list_all (url_safe_entry env taxonomy)
             (activeFilters (run env taxonomy ops init_state))"
  shows "restoreFromURL env taxonomy (updateURL env (run env taxonomy ops init_state)) init_state
           = run env taxonomy ops init_state"
  using roundtrip_wf [OF wf_run [OF wf_init] assms] .

lemma roundtrip_ops_state:
  "run env taxonomy roundtrip_ops init_state
     = \<lparr>activeFilters = [(''grade'', Sel_Arr [PStr ''HG'', PStr ''MG'']),
                         (''mobility'', Sel_Range (Some (Fin 3)) (Some (Fin 5)))],
        searchQuery = ''rx-78''\<rparr>"
  by (simp add: roundtrip_ops_def setter_defs includes_val_def toLowerCase_def lower_char_def)

theorem url_roundtrip_witness:
  "list_all (url_safe_entry decimal_builtins taxonomy_fixture)
     (activeFilters (run decimal_builtins taxonomy_fixture roundtrip_ops init_state))
   \<and> updateURL decimal_builtins (run decimal_builtins taxonomy_fixture roundtrip_ops init_state)
       = [(''q'', ''rx-78''), (''grade'', ''HG,MG''), (''mobility'', ''3-5'')]
   \<and> restoreFromURL decimal_builtins taxonomy_fixture
        [(''q'', ''rx-78''), (''grade'', ''HG,MG''), (''mobility'', ''3-5'')] init_state
       = run decimal_builtins taxonomy_fixture roundtrip_ops init_state"
proof -
  have h: "list_all (url_safe_entry decimal_builtins taxonomy_fixture)
     (activeFilters (run decimal_builtins taxonomy_fixture roundtrip_ops init_state))"
    unfolding roundtrip_ops_state
    by (simp add: url_safe_entry_def plain_string_def plain_number_def join_def
        taxonomy_fixture_def find_category_def builtin_defs)
  have u: "updateURL decimal_builtins
             (run decimal_builtins taxonomy_fixture roundtrip_ops init_state)
       = [(''q'', ''rx-78''), (''grade'', ''HG,MG''), (''mobility'', ''3-5'')]"
    unfolding roundtrip_ops_state
    by (simp add: url_defs builtin_defs)
  show ?thesis
    using url_roundtrip [OF h] h u by simp
qed

text \<open>
  The claim as stated fails on states the setters reach. A category that is not in the
  taxonomy is written to the URL and skipped on the way back; the range from -1 to 5 is
  written as \<^verbatim>\<open>-1-5\<close>, whose parts are the empty string, 1 and 5, and comes back as the
  range from 0 to 1.
\<close>

theorem url_roundtrip_counterexample:
  "activeFilters (run decimal_builtins taxonomy_fixture
      [SetFilter ''scale'' (PStr ''1/144'') True] init_state)
     = [(''scale'', Sel_Arr [PStr ''1/144''])]
   \<and> activeFilters (restoreFromURL decimal_builtins taxonomy_fixture
        (updateURL decimal_builtins
           (run decimal_builtins taxonomy_fixture
              [SetFilter ''scale'' (PStr ''1/144'') True] init_state))
        init_state) = []
   \<and> activeFilters (run decimal_builtins taxonomy_fixture
        [SetRangeFilter ''mobility'' (Some (Fin (- 1))) (Some (Fin 5))] init_state)
     = [(''mobility'', Sel_Range (Some (Fin (- 1))) (Some (Fin 5)))]
   \<and> activeFilters (restoreFromURL decimal_builtins taxonomy_fixture
        (updateURL decimal_builtins
           (run decimal_builtins taxonomy_fixture
              [SetRangeFilter ''mobility'' (Some (Fin (- 1))) (Some (Fin 5))] init_state))
        init_state) = [(''mobility'', Sel_Range (Some (Fin 0)) (Some (Fin 1)))]"
  by (simp add: setter_defs url_defs builtin_defs taxonomy_fixture_def includes_val_def)

end
